theory Spec2Isabelle
  imports Main "HOL-Library.Word"
begin

unbundle bit_operations_syntax

section \<open>Collaborators of the composer result\<close>

text \<open>
  \<^verbatim>\<open>compose/asc-result.c\<close> keeps, for one analysed unit, the components found in it, a
  running checksum per component and the hints raised. It works on \<^verbatim>\<open>AsComponent\<close> and
  \<^verbatim>\<open>AsBundle\<close> objects through their accessors and on three \<^verbatim>\<open>GHashTable\<close>s.
\<close>

text \<open>
  Modelled from the spec: the enum \<^verbatim>\<open>AsBundleKind\<close> is declared in \<^verbatim>\<open>as-bundle.h\<close>. The
  spec names unknown, package, flatpak, snap, cabinet and further kinds, and an upper
  "kind count" value. \<^verbatim>\<open>AS_BUNDLE_KIND_UNKNOWN\<close> is the first enumerator (value 0) and
  \<^verbatim>\<open>AS_BUNDLE_KIND_LAST\<close> the last one.
\<close>

datatype AsBundleKind =
    AS_BUNDLE_KIND_UNKNOWN
  | AS_BUNDLE_KIND_PACKAGE
  | AS_BUNDLE_KIND_LIMBA
  | AS_BUNDLE_KIND_FLATPAK
  | AS_BUNDLE_KIND_APPIMAGE
  | AS_BUNDLE_KIND_SNAP
  | AS_BUNDLE_KIND_TARBALL
  | AS_BUNDLE_KIND_CABINET
  | AS_BUNDLE_KIND_LAST

text \<open>The integer value of an enumerator, which the C comparison \<^verbatim>\<open>>=\<close> reads.\<close>

fun bundle_kind_value :: "AsBundleKind \<Rightarrow> nat" where
  "bundle_kind_value AS_BUNDLE_KIND_UNKNOWN = 0"
| "bundle_kind_value AS_BUNDLE_KIND_PACKAGE = 1"
| "bundle_kind_value AS_BUNDLE_KIND_LIMBA = 2"
| "bundle_kind_value AS_BUNDLE_KIND_FLATPAK = 3"
| "bundle_kind_value AS_BUNDLE_KIND_APPIMAGE = 4"
| "bundle_kind_value AS_BUNDLE_KIND_SNAP = 5"
| "bundle_kind_value AS_BUNDLE_KIND_TARBALL = 6"
| "bundle_kind_value AS_BUNDLE_KIND_CABINET = 7"
| "bundle_kind_value AS_BUNDLE_KIND_LAST = 8"

text \<open>
  Modelled from the spec: the enums \<^verbatim>\<open>AsComponentKind\<close> and \<^verbatim>\<open>AsMergeKind\<close> are declared
  in \<^verbatim>\<open>as-component.h\<close>. The spec: kind is "enumerated: web-application, operating-system,
  and others treated uniformly", merge-kind is "enumerated, including remove".
\<close>

datatype AsComponentKind =
    AS_COMPONENT_KIND_UNKNOWN
  | AS_COMPONENT_KIND_GENERIC
  | AS_COMPONENT_KIND_DESKTOP_APP
  | AS_COMPONENT_KIND_CONSOLE_APP
  | AS_COMPONENT_KIND_WEB_APP
  | AS_COMPONENT_KIND_ADDON
  | AS_COMPONENT_KIND_FONT
  | AS_COMPONENT_KIND_CODEC
  | AS_COMPONENT_KIND_INPUT_METHOD
  | AS_COMPONENT_KIND_FIRMWARE
  | AS_COMPONENT_KIND_DRIVER
  | AS_COMPONENT_KIND_LOCALIZATION
  | AS_COMPONENT_KIND_SERVICE
  | AS_COMPONENT_KIND_REPOSITORY
  | AS_COMPONENT_KIND_OPERATING_SYSTEM
  | AS_COMPONENT_KIND_ICON_THEME
  | AS_COMPONENT_KIND_RUNTIME

datatype AsMergeKind =
    AS_MERGE_KIND_NONE
  | AS_MERGE_KIND_REPLACE
  | AS_MERGE_KIND_APPEND
  | AS_MERGE_KIND_REMOVE_COMPONENT

text \<open>
  Modelled from the spec: a bundle descriptor (\<^verbatim>\<open>AsBundle\<close>, \<^verbatim>\<open>as-bundle.c\<close>) is "constructed
  from (kind, id)". A \<^verbatim>\<open>gchar*\<close> that may be \<^verbatim>\<open>NULL\<close> is a \<^typ>\<open>string option\<close>.
\<close>

record AsBundle =
  bdl_kind :: AsBundleKind
  bdl_id :: "string option"

definition as_bundle_new :: AsBundle where
  "as_bundle_new = \<lparr>bdl_kind = AS_BUNDLE_KIND_UNKNOWN, bdl_id = None\<rparr>"

definition as_bundle_set_kind :: "AsBundle \<Rightarrow> AsBundleKind \<Rightarrow> AsBundle" where
  "as_bundle_set_kind bundle kind = bundle\<lparr>bdl_kind := kind\<rparr>"

definition as_bundle_set_id :: "AsBundle \<Rightarrow> string option \<Rightarrow> AsBundle" where
  "as_bundle_set_id bundle id' = bundle\<lparr>bdl_id := id'\<rparr>"

text \<open>
  Modelled from the spec: a component (\<^verbatim>\<open>AsComponent\<close>, \<^verbatim>\<open>as-component.c\<close>) "must expose
  get/set for local id, kind, merge-kind, a settable canonical/global id, a settable
  package-name list, and an appendable bundle-descriptor list".
\<close>

record AsComponent =
  cpt_id :: "string option"
  cpt_kind :: AsComponentKind
  cpt_merge_kind :: AsMergeKind
  cpt_data_id :: "string option"
  cpt_pkgnames :: "string list"
  cpt_bundles :: "AsBundle list"

text \<open>
  Components are objects on the heap: the result keeps pointers to them, the caller keeps
  its own, and \<^verbatim>\<open>mdata_hashes\<close> is keyed by the pointer itself (\<^verbatim>\<open>g_direct_hash\<close>). The
  store maps a pointer to the object behind it.
\<close>

type_synonym cptr = nat
type_synonym heap = "cptr \<Rightarrow> AsComponent"

definition as_component_get_id :: "heap \<Rightarrow> cptr \<Rightarrow> string option" where
  "as_component_get_id h cpt = cpt_id (h cpt)"

definition as_component_get_kind :: "heap \<Rightarrow> cptr \<Rightarrow> AsComponentKind" where
  "as_component_get_kind h cpt = cpt_kind (h cpt)"

definition as_component_get_merge_kind :: "heap \<Rightarrow> cptr \<Rightarrow> AsMergeKind" where
  "as_component_get_merge_kind h cpt = cpt_merge_kind (h cpt)"

definition as_component_set_data_id :: "heap \<Rightarrow> cptr \<Rightarrow> string option \<Rightarrow> heap" where
  "as_component_set_data_id h cpt gcid = h(cpt := (h cpt)\<lparr>cpt_data_id := gcid\<rparr>)"

text \<open>
  \<^verbatim>\<open>as_component_set_pkgnames\<close> takes a \<^verbatim>\<open>NULL\<close>-terminated array: the names are the entries
  before the first \<^verbatim>\<open>NULL\<close>, and they replace the list the component had.
\<close>

fun strv :: "string option list \<Rightarrow> string list" where
  "strv [] = []"
| "strv (None # rest) = []"
| "strv (Some s # rest) = s # strv rest"

definition as_component_set_pkgnames :: "heap \<Rightarrow> cptr \<Rightarrow> string option list \<Rightarrow> heap" where
  "as_component_set_pkgnames h cpt pkgnames = h(cpt := (h cpt)\<lparr>cpt_pkgnames := strv pkgnames\<rparr>)"

definition as_component_add_bundle :: "heap \<Rightarrow> cptr \<Rightarrow> AsBundle \<Rightarrow> heap" where
  "as_component_add_bundle h cpt bundle =
     h(cpt := (h cpt)\<lparr>cpt_bundles := cpt_bundles (h cpt) @ [bundle]\<rparr>)"

text \<open>
  Modelled from the spec: \<^verbatim>\<open>as_is_empty\<close> (\<^verbatim>\<open>as-utils-private.h\<close>) is true of an "empty or
  missing" string.
\<close>

definition as_is_empty :: "string option \<Rightarrow> bool" where
  "as_is_empty str = (case str of None \<Rightarrow> True | Some s \<Rightarrow> s = [])"

subsection \<open>GLib hash tables\<close>

text \<open>
  A \<^verbatim>\<open>GHashTable*\<close> field is \<^verbatim>\<open>NULL\<close> (\<open>None\<close>) or points to a table (a map). Every GLib
  function below starts with \<^verbatim>\<open>g_return_val_if_fail (hash_table != NULL, ...)\<close>: on a \<^verbatim>\<open>NULL\<close>
  table it logs a critical warning and returns 0, \<^verbatim>\<open>NULL\<close> or \<^verbatim>\<open>FALSE\<close> and changes nothing.
\<close>

type_synonym ('k, 'v) GHashTable = "('k \<rightharpoonup> 'v) option"

definition g_hash_table_size :: "('k, 'v) GHashTable \<Rightarrow> nat" where
  "g_hash_table_size t = (case t of None \<Rightarrow> 0 | Some m \<Rightarrow> card (dom m))"

definition g_hash_table_lookup :: "('k, 'v) GHashTable \<Rightarrow> 'k \<Rightarrow> 'v option" where
  "g_hash_table_lookup t key = (case t of None \<Rightarrow> None | Some m \<Rightarrow> m key)"

definition g_hash_table_contains :: "('k, 'v) GHashTable \<Rightarrow> 'k \<Rightarrow> bool" where
  "g_hash_table_contains t key = (case t of None \<Rightarrow> False | Some m \<Rightarrow> m key \<noteq> None)"

definition g_hash_table_insert :: "('k, 'v) GHashTable \<Rightarrow> 'k \<Rightarrow> 'v \<Rightarrow> ('k, 'v) GHashTable" where
  "g_hash_table_insert t key v = (case t of None \<Rightarrow> None | Some m \<Rightarrow> Some (m(key \<mapsto> v)))"

definition g_hash_table_remove :: "('k, 'v) GHashTable \<Rightarrow> 'k \<Rightarrow> ('k, 'v) GHashTable \<times> bool" where
  "g_hash_table_remove t key =
     (case t of None \<Rightarrow> (None, False) | Some m \<Rightarrow> (Some (m(key := None)), m key \<noteq> None))"

text \<open>
  \<^verbatim>\<open>g_hash_table_unref\<close> drops the reference its caller holds; the table behind the last
  reference is destroyed. On \<^verbatim>\<open>NULL\<close> it only logs the critical warning.
\<close>

fun g_hash_table_unref :: "('k, 'v) GHashTable \<Rightarrow> ('k, 'v) GHashTable" where
  "g_hash_table_unref None = None"
| "g_hash_table_unref (Some m) = None"

text \<open>
  A table made with \<^verbatim>\<open>g_str_hash\<close> hashes the key string before it looks at its buckets, so
  a \<^verbatim>\<open>NULL\<close> key given to a table that exists is dereferenced: the call does not return
  (\<open>None\<close>). \<^verbatim>\<open>asc_result_remove_component\<close> is the one caller that passes on a component id
  it has not tested.
\<close>

definition g_str_hash_table_remove ::
  "(string, 'v) GHashTable \<Rightarrow> string option \<Rightarrow> ((string, 'v) GHashTable \<times> bool) option" where
  "g_str_hash_table_remove t key =
     (case t of
        None \<Rightarrow> Some (None, False)
      | Some m \<Rightarrow> (case key of None \<Rightarrow> None | Some k \<Rightarrow> Some (g_hash_table_remove t k)))"

subsection \<open>The MD5 checksum of GLib\<close>

text \<open>
  \<^verbatim>\<open>g_compute_checksum_for_string (G_CHECKSUM_MD5, str, -1)\<close> returns the MD5 digest
  (RFC 1321) of the bytes of \<^verbatim>\<open>str\<close> as 32 lower-case hexadecimal digits. The message is
  padded with the byte \<^verbatim>\<open>0x80\<close>, zero bytes up to 56 modulo 64 and its length in bits as
  eight little-endian bytes, then read as little-endian 32-bit words, sixteen to a block.
\<close>

definition md5_K :: "32 word list" where
  "md5_K =
     [0xd76aa478, 0xe8c7b756, 0x242070db, 0xc1bdceee,
      0xf57c0faf, 0x4787c62a, 0xa8304613, 0xfd469501,
      0x698098d8, 0x8b44f7af, 0xffff5bb1, 0x895cd7be,
      0x6b901122, 0xfd987193, 0xa679438e, 0x49b40821,
      0xf61e2562, 0xc040b340, 0x265e5a51, 0xe9b6c7aa,
      0xd62f105d, 0x02441453, 0xd8a1e681, 0xe7d3fbc8,
      0x21e1cde6, 0xc33707d6, 0xf4d50d87, 0x455a14ed,
      0xa9e3e905, 0xfcefa3f8, 0x676f02d9, 0x8d2a4c8a,
      0xfffa3942, 0x8771f681, 0x6d9d6122, 0xfde5380c,
      0xa4beea44, 0x4bdecfa9, 0xf6bb4b60, 0xbebfbc70,
      0x289b7ec6, 0xeaa127fa, 0xd4ef3085, 0x04881d05,
      0xd9d4d039, 0xe6db99e5, 0x1fa27cf8, 0xc4ac5665,
      0xf4292244, 0x432aff97, 0xab9423a7, 0xfc93a039,
      0x655b59c3, 0x8f0ccc92, 0xffeff47d, 0x85845dd1,
      0x6fa87e4f, 0xfe2ce6e0, 0xa3014314, 0x4e0811a1,
      0xf7537e82, 0xbd3af235, 0x2ad7d2bb, 0xeb86d391]"

definition md5_s :: "nat list" where
  "md5_s =
     [7, 12, 17, 22, 7, 12, 17, 22, 7, 12, 17, 22, 7, 12, 17, 22,
      5, 9, 14, 20, 5, 9, 14, 20, 5, 9, 14, 20, 5, 9, 14, 20,
      4, 11, 16, 23, 4, 11, 16, 23, 4, 11, 16, 23, 4, 11, 16, 23,
      6, 10, 15, 21, 6, 10, 15, 21, 6, 10, 15, 21, 6, 10, 15, 21]"

definition rotl32 :: "32 word \<Rightarrow> nat \<Rightarrow> 32 word" where
  "rotl32 x n = push_bit n x OR drop_bit (32 - n) x"

definition le_bytes :: "nat \<Rightarrow> nat list" where
  "le_bytes v = map (\<lambda>i. (v div 256 ^ i) mod 256) [0, 1, 2, 3, 4, 5, 6, 7]"

definition md5_pad :: "nat list \<Rightarrow> nat list" where
  "md5_pad msg =
     msg @ [128] @ replicate ((119 - length msg mod 64) mod 64) 0 @ le_bytes (8 * length msg)"

fun le_words :: "nat list \<Rightarrow> 32 word list" where
  "le_words (b0 # b1 # b2 # b3 # rest) =
     (of_nat b0 OR push_bit 8 (of_nat b1) OR push_bit 16 (of_nat b2) OR push_bit 24 (of_nat b3))
       # le_words rest"
| "le_words _ = []"

definition md5_f :: "nat \<Rightarrow> 32 word \<Rightarrow> 32 word \<Rightarrow> 32 word \<Rightarrow> 32 word" where
  "md5_f i b c d =
     (if i < 16 then (b AND c) OR (NOT b AND d)
      else if i < 32 then (d AND b) OR (NOT d AND c)
      else if i < 48 then b XOR c XOR d
      else c XOR (b OR NOT d))"

definition md5_g :: "nat \<Rightarrow> nat" where
  "md5_g i =
     (if i < 16 then i
      else if i < 32 then (5 * i + 1) mod 16
      else if i < 48 then (3 * i + 5) mod 16
      else (7 * i) mod 16)"

type_synonym md5_state = "32 word \<times> 32 word \<times> 32 word \<times> 32 word"

text \<open>Round \<open>i\<close> with its constant \<open>k\<close> and its rotation \<open>s\<close>, on the block \<open>m\<close>.\<close>

fun md5_step :: "32 word list \<Rightarrow> md5_state \<Rightarrow> nat \<times> 32 word \<times> nat \<Rightarrow> md5_state" where
  "md5_step m (a, b, c, d) (i, k, s) =
     (d, b + rotl32 (md5_f i b c d + a + k + m ! md5_g i) s, b, c)"

fun md5_add :: "md5_state \<Rightarrow> md5_state \<Rightarrow> md5_state" where
  "md5_add (a0, b0, c0, d0) (a, b, c, d) = (a0 + a, b0 + b, c0 + c, d0 + d)"

definition md5_rounds :: "(nat \<times> 32 word \<times> nat) list" where
  "md5_rounds = zip [0..<64] (zip md5_K md5_s)"

definition md5_block :: "md5_state \<Rightarrow> 32 word list \<Rightarrow> md5_state" where
  "md5_block st m = md5_add st (foldl (md5_step m) st md5_rounds)"

fun md5_blocks :: "md5_state \<Rightarrow> 32 word list \<Rightarrow> md5_state" where
  "md5_blocks st [] = st"
| "md5_blocks st (w # ws) = md5_blocks (md5_block st (take 16 (w # ws))) (drop 16 (w # ws))"

definition md5_init :: md5_state where
  "md5_init = (0x67452301, 0xefcdab89, 0x98badcfe, 0x10325476)"

definition hex_digit :: "nat \<Rightarrow> char" where
  "hex_digit n = ''0123456789abcdef'' ! n"

definition hex_byte :: "nat \<Rightarrow> string" where
  "hex_byte b = [hex_digit (b div 16), hex_digit (b mod 16)]"

definition hex_le32 :: "32 word \<Rightarrow> string" where
  "hex_le32 w = concat (map (\<lambda>i. hex_byte (unat (drop_bit (8 * i) w) mod 256)) [0, 1, 2, 3])"

fun md5_hexdigest :: "md5_state \<Rightarrow> string" where
  "md5_hexdigest (a, b, c, d) = hex_le32 a @ hex_le32 b @ hex_le32 c @ hex_le32 d"

definition md5_hex :: "string \<Rightarrow> string" where
  "md5_hex str = md5_hexdigest (md5_blocks md5_init (le_words (md5_pad (map of_char str))))"

section \<open>The result of one unit\<close>

typedecl AscHint

record AscResultPrivate =
  bundle_kind :: AsBundleKind
  bundle_id :: "string option"
  cpts :: "(string, cptr) GHashTable"
  mdata_hashes :: "(cptr, string) GHashTable"
  hints :: "(string, AscHint list) GHashTable"

text \<open>
  \<^verbatim>\<open>g_object_new\<close> allocates the instance with its private data filled with zero bytes and
  then runs \<^verbatim>\<open>asc_result_init\<close>: every pointer is \<^verbatim>\<open>NULL\<close> and the kind is the enumerator of
  value 0.
\<close>

definition zero_filled :: AscResultPrivate where
  "zero_filled =
     \<lparr>bundle_kind = AS_BUNDLE_KIND_UNKNOWN, bundle_id = None,
      cpts = None, mdata_hashes = None, hints = None\<rparr>"

text \<open>
  \<^verbatim>\<open>asc_result_init\<close> as the source has it: it releases the string and the three tables the
  fields point to, so that nothing is left to read behind them. On the zero-filled instance
  every field is \<^verbatim>\<open>NULL\<close> already: \<^verbatim>\<open>g_free (NULL)\<close> does nothing and each
  \<^verbatim>\<open>g_hash_table_unref (NULL)\<close> logs a critical warning. \<^verbatim>\<open>asc_result_finalize\<close> as the source
  has it sets the kind and makes the three tables with \<^verbatim>\<open>g_hash_table_new_full\<close>, before the
  object is destroyed.
\<close>

definition asc_result_init :: "AscResultPrivate \<Rightarrow> AscResultPrivate" where
  "asc_result_init priv =
     priv\<lparr>bundle_id := None,
          cpts := g_hash_table_unref (cpts priv),
          mdata_hashes := g_hash_table_unref (mdata_hashes priv),
          hints := g_hash_table_unref (hints priv)\<rparr>"

definition asc_result_finalize :: "AscResultPrivate \<Rightarrow> AscResultPrivate" where
  "asc_result_finalize priv =
     priv\<lparr>bundle_kind := AS_BUNDLE_KIND_UNKNOWN,
          cpts := Some Map.empty,
          mdata_hashes := Some Map.empty,
          hints := Some Map.empty\<rparr>"

definition asc_result_new :: AscResultPrivate where
  "asc_result_new = asc_result_init zero_filled"

definition asc_result_unit_ignored :: "AscResultPrivate \<Rightarrow> bool" where
  "asc_result_unit_ignored priv =
     (g_hash_table_size (cpts priv) = 0 \<and> g_hash_table_size (hints priv) = 0)"

definition asc_result_components_count :: "AscResultPrivate \<Rightarrow> nat" where
  "asc_result_components_count priv = g_hash_table_size (cpts priv)"

definition asc_result_hints_count :: "AscResultPrivate \<Rightarrow> nat" where
  "asc_result_hints_count priv = g_hash_table_size (hints priv)"

definition asc_result_get_bundle_kind :: "AscResultPrivate \<Rightarrow> AsBundleKind" where
  "asc_result_get_bundle_kind priv = bundle_kind priv"

definition asc_result_set_bundle_kind :: "AscResultPrivate \<Rightarrow> AsBundleKind \<Rightarrow> AscResultPrivate" where
  "asc_result_set_bundle_kind priv kind = priv\<lparr>bundle_kind := kind\<rparr>"

definition asc_result_get_bundle_id :: "AscResultPrivate \<Rightarrow> string option" where
  "asc_result_get_bundle_id priv = bundle_id priv"

definition asc_result_set_bundle_id :: "AscResultPrivate \<Rightarrow> string option \<Rightarrow> AscResultPrivate" where
  "asc_result_set_bundle_id priv id' = priv\<lparr>bundle_id := id'\<rparr>"

text \<open>The lookups take a key the caller supplies; it is a string, not \<^verbatim>\<open>NULL\<close>.\<close>

definition asc_result_get_component :: "AscResultPrivate \<Rightarrow> string \<Rightarrow> cptr option" where
  "asc_result_get_component priv cid = g_hash_table_lookup (cpts priv) cid"

definition asc_result_get_hints :: "AscResultPrivate \<Rightarrow> string \<Rightarrow> AscHint list option" where
  "asc_result_get_hints priv cid = g_hash_table_lookup (hints priv) cid"

text \<open>
  What the operations below are written for: the three tables of the result exist. The
  three \<^verbatim>\<open>g_hash_table_new_full\<close> calls of \<^verbatim>\<open>asc_result_finalize\<close> are the only place of the
  file that makes them, and no operation removes a table.
\<close>

definition tables_exist :: "AscResultPrivate \<Rightarrow> bool" where
  "tables_exist priv = (cpts priv \<noteq> None \<and> mdata_hashes priv \<noteq> None \<and> hints priv \<noteq> None)"

subsection \<open>The global component id\<close>

text \<open>
  \<^verbatim>\<open>asc_build_component_global_id\<close> (\<^verbatim>\<open>asc-utils.c\<close>) makes the global id from the component
  id and the checksum, either of which may be \<^verbatim>\<open>NULL\<close>. The result does not fix its format
  and only calls it: it is the parameter \<open>build_gcid\<close> of the model. The function returns the
  heap, the result and its \<^verbatim>\<open>gboolean\<close>. An id that has passed \<^verbatim>\<open>as_is_empty\<close> is a string, the
  \<open>key\<close> of the second case.
\<close>

type_synonym gcid_fn = "string option \<Rightarrow> string option \<Rightarrow> string option"

definition asc_result_update_component_gcid ::
  "gcid_fn \<Rightarrow> heap \<Rightarrow> AscResultPrivate \<Rightarrow> cptr \<Rightarrow> string
     \<Rightarrow> heap \<times> AscResultPrivate \<times> bool" where
  "asc_result_update_component_gcid build_gcid h priv cpt data =
     (let cid = as_component_get_id h cpt in
      case (if as_is_empty cid then None else cid) of
        None \<Rightarrow> (as_component_set_data_id h cpt (build_gcid cid None), priv, True)
      | Some key \<Rightarrow>
          if \<not> g_hash_table_contains (cpts priv) key then (h, priv, False)
          else
            let old_hash = g_hash_table_lookup (mdata_hashes priv) cpt;
                hash = (case old_hash of
                          None \<Rightarrow> md5_hex data
                        | Some old \<Rightarrow> md5_hex (old @ data));
                priv' = priv\<lparr>mdata_hashes := g_hash_table_insert (mdata_hashes priv) cpt hash\<rparr>;
                gcid = build_gcid cid (Some hash)
            in (as_component_set_data_id h cpt gcid, priv', True))"

subsection \<open>Adding and removing components\<close>

datatype AscComposeError = ASC_COMPOSE_ERROR_FAILED string

text \<open>
  The block of \<^verbatim>\<open>asc_result_add_component\<close> that records where the component comes from
  (from the read of the component kind to the end of the outer \<^verbatim>\<open>if\<close>). It changes the
  component only.
\<close>

definition add_component_bundle_policy :: "heap \<Rightarrow> AscResultPrivate \<Rightarrow> cptr \<Rightarrow> heap" where
  "add_component_bundle_policy h priv cpt =
     (let ckind = as_component_get_kind h cpt in
      if ckind \<noteq> AS_COMPONENT_KIND_WEB_APP \<and>
         ckind \<noteq> AS_COMPONENT_KIND_OPERATING_SYSTEM \<and>
         as_component_get_merge_kind h cpt \<noteq> AS_MERGE_KIND_REMOVE_COMPONENT
      then
        if bundle_kind priv = AS_BUNDLE_KIND_PACKAGE
        then as_component_set_pkgnames h cpt [bundle_id priv, None]
        else if bundle_kind priv \<noteq> AS_BUNDLE_KIND_UNKNOWN \<and>
                bundle_kind_value (bundle_kind priv) \<ge> bundle_kind_value AS_BUNDLE_KIND_LAST
        then
          as_component_add_bundle h cpt
            (as_bundle_set_id (as_bundle_set_kind as_bundle_new (bundle_kind priv))
               (bundle_id priv))
        else h
      else h)"

text \<open>
  The value of the inner \<^verbatim>\<open>asc_result_update_component_gcid\<close> call is dropped, as in the
  source; the function returns \<^verbatim>\<open>TRUE\<close> (\<open>Inr ()\<close>) or sets the error (\<open>Inl\<close>).
\<close>

definition asc_result_add_component ::
  "gcid_fn \<Rightarrow> heap \<Rightarrow> AscResultPrivate \<Rightarrow> cptr \<Rightarrow> string
     \<Rightarrow> heap \<times> AscResultPrivate \<times> (AscComposeError + unit)" where
  "asc_result_add_component build_gcid h priv cpt data =
     (let cid = as_component_get_id h cpt in
      case (if as_is_empty cid then None else cid) of
        None \<Rightarrow>
          (h, priv,
           Inl (ASC_COMPOSE_ERROR_FAILED ''Can not add component with empty ID to results set.''))
      | Some key \<Rightarrow>
          let h1 = add_component_bundle_policy h priv cpt;
              priv1 = priv\<lparr>cpts := g_hash_table_insert (cpts priv) key cpt\<rparr>;
              (h2, priv2, updated) =
                asc_result_update_component_gcid build_gcid h1 priv1 cpt data
          in (h2, priv2, Inr ()))"

text \<open>
  \<open>None\<close> is the call that does not return: the component's id is \<^verbatim>\<open>NULL\<close> and \<^verbatim>\<open>cpts\<close>
  exists.
\<close>

definition asc_result_remove_component ::
  "heap \<Rightarrow> AscResultPrivate \<Rightarrow> cptr \<Rightarrow> (heap \<times> AscResultPrivate \<times> bool) option" where
  "asc_result_remove_component h priv cpt =
     (case g_str_hash_table_remove (cpts priv) (as_component_get_id h cpt) of
        None \<Rightarrow> None
      | Some (cpts', ret) \<Rightarrow>
          let h' = (if ret then as_component_set_data_id h cpt None else h);
              (mdata_hashes', removed) = g_hash_table_remove (mdata_hashes priv) cpt
          in Some (h', priv\<lparr>cpts := cpts', mdata_hashes := mdata_hashes'\<rparr>, ret))"

subsection \<open>The results the program builds\<close>

text \<open>
  A result is made by \<^verbatim>\<open>asc_result_new\<close> and changed by the two setters and by the three
  operations above, on any component and with any data. \<^verbatim>\<open>asc_result_finalize\<close> runs when the
  object is destroyed, and nothing reads the result after it.
\<close>

inductive reachable :: "AscResultPrivate \<Rightarrow> bool" where
  new: "reachable asc_result_new"
| set_bundle_kind: "reachable priv \<Longrightarrow> reachable (asc_result_set_bundle_kind priv kind)"
| set_bundle_id: "reachable priv \<Longrightarrow> reachable (asc_result_set_bundle_id priv bid)"
| add_component:
    "reachable priv \<Longrightarrow> asc_result_add_component build h priv cpt d = (h', priv', res) \<Longrightarrow>
     reachable priv'"
| update_component_gcid:
    "reachable priv \<Longrightarrow> asc_result_update_component_gcid build h priv cpt d = (h', priv', ok) \<Longrightarrow>
     reachable priv'"
| remove_component:
    "reachable priv \<Longrightarrow> asc_result_remove_component h priv cpt = Some (h', priv', removed) \<Longrightarrow>
     reachable priv'"

text \<open>What the three pointers of such a result are: \<^verbatim>\<open>NULL\<close>.\<close>

definition no_tables :: "AscResultPrivate \<Rightarrow> bool" where
  "no_tables priv = (cpts priv = None \<and> mdata_hashes priv = None \<and> hints priv = None)"

subsection \<open>Callers and sample data\<close>

text \<open>
  A caller that adds components one after the other, each with its data, and goes on
  whatever \<^verbatim>\<open>asc_result_add_component\<close> returns.
\<close>

fun add_components ::
  "gcid_fn \<Rightarrow> heap \<Rightarrow> AscResultPrivate \<Rightarrow> (cptr \<times> string) list \<Rightarrow> heap \<times> AscResultPrivate" where
  "add_components build_gcid h priv [] = (h, priv)"
| "add_components build_gcid h priv ((cpt, data) # rest) =
     (case asc_result_add_component build_gcid h priv cpt data of
        (h', priv', res) \<Rightarrow> add_components build_gcid h' priv' rest)"

text \<open>The ids under which that caller has inserted something: those that are not empty.\<close>

fun inserted_ids :: "heap \<Rightarrow> (cptr \<times> string) list \<Rightarrow> string list" where
  "inserted_ids h [] = []"
| "inserted_ids h ((cpt, data) # rest) =
     (case as_component_get_id h cpt of
        None \<Rightarrow> inserted_ids h rest
      | Some key \<Rightarrow> if key = [] then inserted_ids h rest else key # inserted_ids h rest)"

text \<open>
  Sample data for the examples: a builder of global ids, a component as
  \<^verbatim>\<open>as_component_new\<close> followed by the setters leaves it, a heap of four components, and a
  result whose three tables are made and empty.
\<close>

definition sample_gcid :: gcid_fn where
  "sample_gcid cid hash =
     (case cid of
        None \<Rightarrow> None
      | Some c \<Rightarrow> Some (c @ ''/'' @ (case hash of None \<Rightarrow> ''last'' | Some x \<Rightarrow> x)))"

definition sample_component ::
  "string option \<Rightarrow> AsComponentKind \<Rightarrow> AsMergeKind \<Rightarrow> AsComponent" where
  "sample_component cid kind merge =
     \<lparr>cpt_id = cid, cpt_kind = kind, cpt_merge_kind = merge, cpt_data_id = None,
      cpt_pkgnames = [], cpt_bundles = []\<rparr>"

definition sample_heap :: heap where
  "sample_heap =
     (\<lambda>p. sample_component None AS_COMPONENT_KIND_UNKNOWN AS_MERGE_KIND_NONE)
       (0 := sample_component (Some ''org.app'') AS_COMPONENT_KIND_DESKTOP_APP AS_MERGE_KIND_NONE,
        1 := sample_component (Some ''org.app'') AS_COMPONENT_KIND_GENERIC AS_MERGE_KIND_NONE,
        2 := sample_component (Some ''org.web'') AS_COMPONENT_KIND_WEB_APP AS_MERGE_KIND_NONE,
        3 := sample_component (Some []) AS_COMPONENT_KIND_GENERIC AS_MERGE_KIND_NONE)"

definition sample_result :: "AsBundleKind \<Rightarrow> string option \<Rightarrow> AscResultPrivate" where
  "sample_result kind bid =
     \<lparr>bundle_kind = kind, bundle_id = bid,
      cpts = Some Map.empty, mdata_hashes = Some Map.empty, hints = Some Map.empty\<rparr>"

section \<open>Lemmas on the operations\<close>

lemmas glib_defs =
  g_hash_table_size_def g_hash_table_lookup_def g_hash_table_contains_def
  g_hash_table_insert_def g_hash_table_remove_def g_str_hash_table_remove_def

lemmas cpt_defs =
  as_component_get_id_def as_component_get_kind_def as_component_get_merge_kind_def
  as_component_set_data_id_def as_component_set_pkgnames_def as_component_add_bundle_def
  as_bundle_new_def as_bundle_set_kind_def as_bundle_set_id_def

lemmas sample_defs =
  sample_gcid_def sample_component_def sample_heap_def sample_result_def

lemmas op_defs =
  asc_result_add_component_def asc_result_update_component_gcid_def
  asc_result_remove_component_def add_component_bundle_policy_def

lemma not_empty_id: "\<not> as_is_empty cid \<longleftrightarrow> (\<exists>key. cid = Some key \<and> key \<noteq> [])"
  by (cases cid) (simp_all add: as_is_empty_def)

lemma bundle_policy_id:
  "cpt_id (add_component_bundle_policy h priv cpt c) = cpt_id (h c)"
  by (simp add: add_component_bundle_policy_def cpt_defs Let_def)

lemma bundle_policy_other:
  "c \<noteq> cpt \<Longrightarrow> add_component_bundle_policy h priv cpt c = h c"
  by (simp add: add_component_bundle_policy_def cpt_defs Let_def)

lemma update_gcid_empty:
  "as_is_empty (as_component_get_id h cpt) \<Longrightarrow>
   asc_result_update_component_gcid build h priv cpt d =
     (as_component_set_data_id h cpt (build (as_component_get_id h cpt) None), priv, True)"
  by (simp add: asc_result_update_component_gcid_def Let_def)

lemma update_gcid_not_found:
  "as_component_get_id h cpt = Some key \<Longrightarrow> key \<noteq> [] \<Longrightarrow>
   \<not> g_hash_table_contains (cpts priv) key \<Longrightarrow>
   asc_result_update_component_gcid build h priv cpt d = (h, priv, False)"
  by (simp add: asc_result_update_component_gcid_def Let_def as_is_empty_def)

lemma update_gcid_found:
  "as_component_get_id h cpt = Some key \<Longrightarrow> key \<noteq> [] \<Longrightarrow>
   g_hash_table_contains (cpts priv) key \<Longrightarrow>
   asc_result_update_component_gcid build h priv cpt d =
     (let hash = (case g_hash_table_lookup (mdata_hashes priv) cpt of
                    None \<Rightarrow> md5_hex d
                  | Some old \<Rightarrow> md5_hex (old @ d))
      in (as_component_set_data_id h cpt (build (Some key) (Some hash)),
          priv\<lparr>mdata_hashes := g_hash_table_insert (mdata_hashes priv) cpt hash\<rparr>, True))"
  by (simp add: asc_result_update_component_gcid_def Let_def as_is_empty_def)

lemma update_gcid_keeps_fields:
  "cpt_bundles (fst (asc_result_update_component_gcid build h priv cpt d) c) = cpt_bundles (h c)"
  "cpt_pkgnames (fst (asc_result_update_component_gcid build h priv cpt d) c) = cpt_pkgnames (h c)"
  by (simp_all add: asc_result_update_component_gcid_def Let_def as_component_set_data_id_def
      split: option.splits)

lemma update_gcid_cpts:
  "cpts (fst (snd (asc_result_update_component_gcid build h priv cpt d))) = cpts priv"
  by (simp add: asc_result_update_component_gcid_def Let_def split: option.splits)

lemma add_component_empty:
  "as_is_empty (as_component_get_id h cpt) \<Longrightarrow>
   asc_result_add_component build h priv cpt d =
     (h, priv,
      Inl (ASC_COMPOSE_ERROR_FAILED ''Can not add component with empty ID to results set.''))"
  by (simp add: asc_result_add_component_def Let_def)

lemma add_component_nonempty:
  "as_component_get_id h cpt = Some key \<Longrightarrow> key \<noteq> [] \<Longrightarrow>
   asc_result_add_component build h priv cpt d =
     (case asc_result_update_component_gcid build (add_component_bundle_policy h priv cpt)
             (priv\<lparr>cpts := g_hash_table_insert (cpts priv) key cpt\<rparr>) cpt d of
        (h2, priv2, updated) \<Rightarrow> (h2, priv2, Inr ()))"
  by (simp add: asc_result_add_component_def Let_def as_is_empty_def)

text \<open>
  Adding a component with an id to a result whose tables exist, in one equation: the
  component goes through the bundle policy, is stored under its id, and its checksum is
  seeded or chained.
\<close>

lemma add_component_stored:
  assumes "as_component_get_id h cpt = Some key" and "key \<noteq> []"
    and "cpts priv = Some cm" and "mdata_hashes priv = Some hm"
  shows "asc_result_add_component build h priv cpt d =
     (let hash = (case hm cpt of None \<Rightarrow> md5_hex d | Some old \<Rightarrow> md5_hex (old @ d))
      in (as_component_set_data_id (add_component_bundle_policy h priv cpt) cpt
            (build (Some key) (Some hash)),
          priv\<lparr>cpts := Some (cm(key \<mapsto> cpt)), mdata_hashes := Some (hm(cpt \<mapsto> hash))\<rparr>,
          Inr ()))"
proof -
  let ?h1 = "add_component_bundle_policy h priv cpt"
  let ?p1 = "priv\<lparr>cpts := g_hash_table_insert (cpts priv) key cpt\<rparr>"
  have id1: "as_component_get_id ?h1 cpt = Some key"
    using assms(1) by (simp add: as_component_get_id_def bundle_policy_id)
  have found: "g_hash_table_contains (cpts ?p1) key"
    using assms(3) by (simp add: glib_defs)
  show ?thesis
    unfolding add_component_nonempty [OF assms(1,2)] update_gcid_found [OF id1 assms(2) found]
    using assms(3,4) by (simp add: glib_defs Let_def)
qed

lemma add_component_keeps_ids:
  "cpt_id (fst (asc_result_add_component build h priv cpt d) c) = cpt_id (h c)"
proof (cases "as_is_empty (as_component_get_id h cpt)")
  case True
  then show ?thesis by (simp add: add_component_empty)
next
  case False
  then obtain key where k: "as_component_get_id h cpt = Some key" "key \<noteq> []"
    by (auto simp: not_empty_id)
  show ?thesis
    by (simp add: add_component_nonempty [OF k] asc_result_update_component_gcid_def Let_def
        as_component_get_id_def as_component_set_data_id_def bundle_policy_id
        split: prod.splits option.splits if_splits)
qed

lemma bundle_kind_last: "8 \<le> bundle_kind_value k \<longleftrightarrow> k = AS_BUNDLE_KIND_LAST"
  by (cases k) simp_all

lemma add_component_fields:
  "cpt_bundles (fst (asc_result_add_component build h priv cpt d) c) =
     (if as_is_empty (as_component_get_id h cpt) then cpt_bundles (h c)
      else cpt_bundles (add_component_bundle_policy h priv cpt c))"
  "cpt_pkgnames (fst (asc_result_add_component build h priv cpt d) c) =
     (if as_is_empty (as_component_get_id h cpt) then cpt_pkgnames (h c)
      else cpt_pkgnames (add_component_bundle_policy h priv cpt c))"
  by (auto simp: add_component_empty not_empty_id add_component_nonempty split_beta
      update_gcid_keeps_fields)

lemma add_component_cpts:
  "cpts (fst (snd (asc_result_add_component build h priv cpt d))) =
     (case as_component_get_id h cpt of
        None \<Rightarrow> cpts priv
      | Some key \<Rightarrow> if key = [] then cpts priv else g_hash_table_insert (cpts priv) key cpt)"
proof (cases "as_is_empty (as_component_get_id h cpt)")
  case True
  then show ?thesis
    by (auto simp: add_component_empty as_is_empty_def split: option.splits)
next
  case False
  then obtain key where k: "as_component_get_id h cpt = Some key" "key \<noteq> []"
    by (auto simp: not_empty_id)
  show ?thesis
    using update_gcid_cpts [of build "add_component_bundle_policy h priv cpt"
        "priv\<lparr>cpts := g_hash_table_insert (cpts priv) key cpt\<rparr>" cpt d]
    by (simp add: add_component_nonempty [OF k] k split_beta)
qed

lemma inserted_ids_heap:
  "(\<And>c. cpt_id (h' c) = cpt_id (h c)) \<Longrightarrow> inserted_ids h' xs = inserted_ids h xs"
  by (induction xs) (auto simp: as_component_get_id_def split: option.splits)

lemma add_components_dom:
  "cpts priv = Some cm \<Longrightarrow>
   \<exists>cm'. cpts (snd (add_components build h priv xs)) = Some cm' \<and>
         dom cm' = dom cm \<union> set (inserted_ids h xs)"
proof (induction xs arbitrary: h priv cm)
  case Nil
  then show ?case by simp
next
  case (Cons x xs)
  obtain cpt d where x: "x = (cpt, d)" by (cases x)
  obtain h' priv' res where a: "asc_result_add_component build h priv cpt d = (h', priv', res)"
    by (cases "asc_result_add_component build h priv cpt d")
  have ids: "inserted_ids h' xs = inserted_ids h xs"
    using add_component_keeps_ids [of build h priv cpt d] a
    by (intro inserted_ids_heap) simp
  have c': "cpts priv' =
     (case as_component_get_id h cpt of
        None \<Rightarrow> cpts priv
      | Some key \<Rightarrow> if key = [] then cpts priv else g_hash_table_insert (cpts priv) key cpt)"
    using add_component_cpts [of build h priv cpt d] a by simp
  show ?case
  proof (cases "as_is_empty (as_component_get_id h cpt)")
    case True
    then have "cpts priv' = Some cm"
      using c' Cons.prems by (auto simp: as_is_empty_def split: option.splits)
    from Cons.IH [OF this, of h'] True show ?thesis
      by (auto simp: x a ids as_is_empty_def split: option.splits)
  next
    case False
    then obtain key where k: "as_component_get_id h cpt = Some key" "key \<noteq> []"
      by (auto simp: not_empty_id)
    then have "cpts priv' = Some (cm(key \<mapsto> cpt))"
      using c' Cons.prems by (simp add: glib_defs)
    from Cons.IH [OF this, of h'] k show ?thesis
      by (auto simp: x a ids)
  qed
qed

text \<open>No operation makes or removes a table.\<close>

lemma update_gcid_keeps_tables:
  "tables_exist (fst (snd (asc_result_update_component_gcid build h priv cpt d))) = tables_exist priv"
  by (cases "mdata_hashes priv")
     (simp_all add: asc_result_update_component_gcid_def tables_exist_def glib_defs Let_def
        split: option.splits)

lemma add_component_keeps_tables:
  "tables_exist (fst (snd (asc_result_add_component build h priv cpt d))) = tables_exist priv"
proof (cases "as_is_empty (as_component_get_id h cpt)")
  case True
  then show ?thesis by (simp add: add_component_empty)
next
  case False
  then obtain key where k: "as_component_get_id h cpt = Some key" "key \<noteq> []"
    by (auto simp: not_empty_id)
  have "tables_exist (priv\<lparr>cpts := g_hash_table_insert (cpts priv) key cpt\<rparr>) = tables_exist priv"
    by (cases "cpts priv") (simp_all add: tables_exist_def glib_defs)
  then show ?thesis
    by (simp add: add_component_nonempty [OF k] split_beta update_gcid_keeps_tables)
qed

lemma remove_component_keeps_tables:
  "asc_result_remove_component h priv cpt = Some (h', priv', removed) \<Longrightarrow>
   tables_exist priv' = tables_exist priv"
  by (cases "cpts priv"; cases "mdata_hashes priv")
     (auto simp: asc_result_remove_component_def tables_exist_def glib_defs Let_def
        split: option.splits)

text \<open>
  The one call that does not return: \<^verbatim>\<open>asc_result_remove_component\<close> on a component whose
  id is \<^verbatim>\<open>NULL\<close>, in a result whose table \<^verbatim>\<open>cpts\<close> exists.
\<close>

lemma remove_component_null_id:
  "asc_result_remove_component h priv cpt = None \<longleftrightarrow>
     cpts priv \<noteq> None \<and> as_component_get_id h cpt = None"
  by (cases "cpts priv"; cases "as_component_get_id h cpt"; cases "mdata_hashes priv")
     (simp_all add: asc_result_remove_component_def glib_defs Let_def)

subsection \<open>On the results the program builds\<close>

text \<open>
  Without tables the operations do little: the equations below give all of it. Every result
  the program builds is without tables, since no operation makes one.
\<close>

lemma update_gcid_no_tables:
  "no_tables priv \<Longrightarrow>
   asc_result_update_component_gcid build h priv cpt d =
     (if as_is_empty (as_component_get_id h cpt)
      then (as_component_set_data_id h cpt (build (as_component_get_id h cpt) None), priv, True)
      else (h, priv, False))"
  by (auto simp: update_gcid_empty not_empty_id update_gcid_not_found no_tables_def glib_defs)

lemma add_component_no_tables:
  "no_tables priv \<Longrightarrow>
   asc_result_add_component build h priv cpt d =
     (if as_is_empty (as_component_get_id h cpt)
      then (h, priv,
            Inl (ASC_COMPOSE_ERROR_FAILED ''Can not add component with empty ID to results set.''))
      else (add_component_bundle_policy h priv cpt, priv, Inr ()))"
proof (cases "as_is_empty (as_component_get_id h cpt)")
  case True
  then show ?thesis by (simp add: add_component_empty)
next
  case False
  then obtain key where k: "as_component_get_id h cpt = Some key" "key \<noteq> []"
    by (auto simp: not_empty_id)
  assume n: "no_tables priv"
  have p: "priv\<lparr>cpts := g_hash_table_insert (cpts priv) key cpt\<rparr> = priv"
    using n by (simp add: no_tables_def glib_defs)
  have k1: "as_component_get_id (add_component_bundle_policy h priv cpt) cpt = Some key"
    using k by (simp add: as_component_get_id_def bundle_policy_id)
  have e1: "\<not> as_is_empty (as_component_get_id (add_component_bundle_policy h priv cpt) cpt)"
    using k1 k(2) by (simp add: as_is_empty_def)
  show ?thesis
    using False
    by (simp add: add_component_nonempty [OF k] p update_gcid_no_tables [OF n] e1)
qed

lemma remove_component_no_tables:
  "no_tables priv \<Longrightarrow> asc_result_remove_component h priv cpt = Some (h, priv, False)"
  by (simp add: asc_result_remove_component_def no_tables_def glib_defs Let_def)

lemma add_components_no_tables:
  "no_tables priv \<Longrightarrow> snd (add_components build h priv xs) = priv"
proof (induction xs arbitrary: h)
  case Nil
  then show ?case by simp
next
  case (Cons x xs)
  obtain cpt d where x: "x = (cpt, d)" by (cases x)
  show ?case
    using Cons by (simp add: x add_component_no_tables)
qed

lemma reachable_no_tables: "reachable priv \<Longrightarrow> no_tables priv"
proof (induction rule: reachable.induct)
  case new
  then show ?case
    by (simp add: no_tables_def asc_result_new_def asc_result_init_def zero_filled_def)
next
  case (set_bundle_kind priv kind)
  then show ?case by (simp add: no_tables_def asc_result_set_bundle_kind_def)
next
  case (set_bundle_id priv bid)
  then show ?case by (simp add: no_tables_def asc_result_set_bundle_id_def)
next
  case (add_component priv build h cpt d h' priv' res)
  then show ?case by (auto simp: add_component_no_tables split: if_splits)
next
  case (update_component_gcid priv build h cpt d h' priv' ok)
  then show ?case by (auto simp: update_gcid_no_tables split: if_splits)
next
  case (remove_component priv h cpt h' priv' removed)
  then show ?case by (simp add: remove_component_no_tables)
qed


subsection \<open>Values of the checksum\<close>

text \<open>
  The digests of \<^verbatim>\<open>"a"\<close>, \<^verbatim>\<open>"b"\<close>, \<^verbatim>\<open>"ab"\<close> and of the digest of \<^verbatim>\<open>"a"\<close> followed by
  \<^verbatim>\<open>"b"\<close>, computed by rewriting with the definitions. A digest is 32 characters long.
\<close>

lemma replicate_numeral: "replicate (numeral k) x = x # replicate (pred_numeral k) x"
  by (simp add: numeral_eq_Suc)

lemma upt_0_64: "[0..<64] = 0 # Suc 0 # [2..<64]"
  by (simp add: upt_rec [of 0] upt_rec [of "Suc 0"] numeral_2_eq_2 [symmetric])

lemmas md5_eval =
  md5_hex_def md5_pad_def le_bytes_def replicate_numeral md5_block_def md5_rounds_def upt_0_64
  md5_init_def md5_K_def md5_s_def md5_f_def md5_g_def rotl32_def
  hex_le32_def hex_byte_def hex_digit_def

lemma md5_hex_a: "md5_hex ''a'' = ''0cc175b9c0f1b6a831c399e269772661''"
  by (simp add: md5_eval)

lemma md5_hex_b: "md5_hex ''b'' = ''92eb5ffee6ae2fec3ad71c777531578f''"
  by (simp add: md5_eval)

lemma md5_hex_ab: "md5_hex ''ab'' = ''187ef4436122d1cc2f40dc2b92f0eba0''"
  by (simp add: md5_eval)

lemma md5_hex_chain_a_b:
  "md5_hex (''0cc175b9c0f1b6a831c399e269772661'' @ ''b'') = ''680ac27da3dad1e9252e45efb75e2dfb''"
  by (simp add: md5_eval)

lemma md5_hex_length: "length (md5_hex str) = 32"
  by (cases "md5_blocks md5_init (le_words (md5_pad (map of_char str)))")
     (simp add: md5_hex_def hex_le32_def hex_byte_def)

section \<open>The operations on a result whose tables exist\<close>

text \<open>
  What the operations are written to do, on a result whose three tables exist. Only
  \<^verbatim>\<open>asc_result_finalize\<close> makes such a result, so these lemmas say what the code attempts and
  not what a caller sees.
\<close>

text \<open>
  After \<^verbatim>\<open>asc_result_add_component\<close> on a component with an id,
  \<^verbatim>\<open>asc_result_get_component\<close> on that id returns the component, the other ids are as before,
  and when the id was present already, the count of components is the same. For a caller
  that starts with an empty table and adds a list of components, the count is the number
  of distinct ids it has inserted, and the ids found are those inserted.
\<close>

lemma add_component_storage_with_tables:
  "(as_component_get_id h cpt = Some key \<and> key \<noteq> [] \<and> tables_exist priv \<longrightarrow>
      (case asc_result_add_component build h priv cpt d of
         (h', priv', res) \<Rightarrow>
           res = Inr () \<and>
           asc_result_get_component priv' key = Some cpt \<and>
           (\<forall>k. k \<noteq> key \<longrightarrow>
              asc_result_get_component priv' k = asc_result_get_component priv k) \<and>
           (asc_result_get_component priv key \<noteq> None \<longrightarrow>
              asc_result_components_count priv' = asc_result_components_count priv))) \<and>
   (cpts priv = Some Map.empty \<longrightarrow>
      asc_result_components_count (snd (add_components build h priv xs))
        = length (remdups (inserted_ids h xs)) \<and>
      (\<forall>k. asc_result_get_component (snd (add_components build h priv xs)) k \<noteq> None
           \<longleftrightarrow> k \<in> set (inserted_ids h xs)))"
proof (intro conjI impI)
  assume a: "as_component_get_id h cpt = Some key \<and> key \<noteq> [] \<and> tables_exist priv"
  then obtain cm where cm: "cpts priv = Some cm"
    by (auto simp: tables_exist_def)
  have c: "cpts (fst (snd (asc_result_add_component build h priv cpt d))) = Some (cm(key \<mapsto> cpt))"
    using a cm by (simp add: add_component_cpts glib_defs)
  have r: "snd (snd (asc_result_add_component build h priv cpt d)) = Inr ()"
    using a by (simp add: add_component_nonempty split_beta)
  have "key \<in> dom cm \<Longrightarrow> insert key (dom cm) = dom cm"
    by auto
  then show "case asc_result_add_component build h priv cpt d of
         (h', priv', res) \<Rightarrow>
           res = Inr () \<and>
           asc_result_get_component priv' key = Some cpt \<and>
           (\<forall>k. k \<noteq> key \<longrightarrow>
              asc_result_get_component priv' k = asc_result_get_component priv k) \<and>
           (asc_result_get_component priv key \<noteq> None \<longrightarrow>
              asc_result_components_count priv' = asc_result_components_count priv)"
    using c r cm
    by (auto simp: asc_result_get_component_def asc_result_components_count_def glib_defs
        insert_absorb domI split: prod.splits)
next
  assume e: "cpts priv = Some Map.empty"
  from add_components_dom [OF e, of build h xs]
  obtain cm' where cm': "cpts (snd (add_components build h priv xs)) = Some cm'"
    "dom cm' = set (inserted_ids h xs)"
    by auto
  show "asc_result_components_count (snd (add_components build h priv xs))
        = length (remdups (inserted_ids h xs))"
    by (simp add: asc_result_components_count_def glib_defs cm' length_remdups_card_conv)
  show "\<forall>k. asc_result_get_component (snd (add_components build h priv xs)) k \<noteq> None
           \<longleftrightarrow> k \<in> set (inserted_ids h xs)"
    using cm'(2) by (auto simp: asc_result_get_component_def glib_defs cm'(1))
qed

text \<open>
  The call of \<^verbatim>\<open>asc_result_update_component_gcid\<close> that \<^verbatim>\<open>asc_result_add_component\<close> makes
  after the insert returns \<^verbatim>\<open>TRUE\<close>: the id it looks up is the key just inserted.
\<close>

lemma gcid_update_inside_add_with_tables:
  "as_component_get_id h cpt = Some key \<and> key \<noteq> [] \<and> tables_exist priv \<longrightarrow>
   (case asc_result_update_component_gcid build (add_component_bundle_policy h priv cpt)
           (priv\<lparr>cpts := g_hash_table_insert (cpts priv) key cpt\<rparr>) cpt d of
      (h2, priv2, updated) \<Rightarrow>
        updated \<and> asc_result_add_component build h priv cpt d = (h2, priv2, Inr ()))"
  by (auto simp: add_component_nonempty update_gcid_found as_component_get_id_def tables_exist_def
      bundle_policy_id glib_defs Let_def split: prod.splits)

text \<open>
  For a component stored under its id, which is not empty:
  \<^verbatim>\<open>asc_result_update_component_gcid\<close> with data \<open>d\<close> returns \<^verbatim>\<open>TRUE\<close>; when no checksum is
  stored for the component, it stores the MD5 digest of \<open>d\<close>; when the checksum \<open>H\<close> is stored,
  it stores the digest of \<open>H\<close> followed by \<open>d\<close>; the global id is built from the id and the
  checksum stored. Adding a component that has no checksum yet with data \<open>a\<close> and updating
  it with data \<open>b\<close> leaves the digest of (the digest of \<open>a\<close>, followed by \<open>b\<close>). For \<^verbatim>\<open>"a"\<close>
  and \<^verbatim>\<open>"b"\<close> that is not the digest of \<^verbatim>\<open>"ab"\<close>.
\<close>

lemma update_gcid_chains_with_tables:
  "(tables_exist priv \<and> as_component_get_id h cpt = Some key \<and> key \<noteq> [] \<and>
    asc_result_get_component priv key = Some cpt \<longrightarrow>
      (case asc_result_update_component_gcid build h priv cpt d of
         (h', priv', ok) \<Rightarrow>
           ok \<and> cpts priv' = cpts priv \<and>
           (g_hash_table_lookup (mdata_hashes priv) cpt = None \<longrightarrow>
              g_hash_table_lookup (mdata_hashes priv') cpt = Some (md5_hex d) \<and>
              cpt_data_id (h' cpt) = build (Some key) (Some (md5_hex d))) \<and>
           (\<forall>H. g_hash_table_lookup (mdata_hashes priv) cpt = Some H \<longrightarrow>
              g_hash_table_lookup (mdata_hashes priv') cpt = Some (md5_hex (H @ d)) \<and>
              cpt_data_id (h' cpt) = build (Some key) (Some (md5_hex (H @ d)))))) \<and>
   (tables_exist priv \<and> as_component_get_id h cpt = Some key \<and> key \<noteq> [] \<and>
    g_hash_table_lookup (mdata_hashes priv) cpt = None \<longrightarrow>
      (case asc_result_add_component build h priv cpt a of
         (h1, priv1, added) \<Rightarrow>
           (case asc_result_update_component_gcid build h1 priv1 cpt b of
              (h2, priv2, ok) \<Rightarrow>
                added = Inr () \<and> ok \<and>
                g_hash_table_lookup (mdata_hashes priv1) cpt = Some (md5_hex a) \<and>
                g_hash_table_lookup (mdata_hashes priv2) cpt = Some (md5_hex (md5_hex a @ b)) \<and>
                cpt_data_id (h2 cpt) = build (Some key) (Some (md5_hex (md5_hex a @ b)))))) \<and>
   md5_hex (md5_hex ''a'' @ ''b'') \<noteq> md5_hex ''ab''"
proof (intro conjI impI)
  assume a: "tables_exist priv \<and> as_component_get_id h cpt = Some key \<and> key \<noteq> [] \<and>
    asc_result_get_component priv key = Some cpt"
  then obtain hm where hm: "mdata_hashes priv = Some hm"
    by (auto simp: tables_exist_def)
  have k: "as_component_get_id h cpt = Some key" "key \<noteq> []"
    using a by simp_all
  have f: "g_hash_table_contains (cpts priv) key"
    using a by (auto simp: asc_result_get_component_def glib_defs split: option.splits)
  show "case asc_result_update_component_gcid build h priv cpt d of
         (h', priv', ok) \<Rightarrow>
           ok \<and> cpts priv' = cpts priv \<and>
           (g_hash_table_lookup (mdata_hashes priv) cpt = None \<longrightarrow>
              g_hash_table_lookup (mdata_hashes priv') cpt = Some (md5_hex d) \<and>
              cpt_data_id (h' cpt) = build (Some key) (Some (md5_hex d))) \<and>
           (\<forall>H. g_hash_table_lookup (mdata_hashes priv) cpt = Some H \<longrightarrow>
              g_hash_table_lookup (mdata_hashes priv') cpt = Some (md5_hex (H @ d)) \<and>
              cpt_data_id (h' cpt) = build (Some key) (Some (md5_hex (H @ d))))"
    unfolding update_gcid_found [OF k f]
    using hm by (simp add: glib_defs Let_def as_component_set_data_id_def)
next
  assume a: "tables_exist priv \<and> as_component_get_id h cpt = Some key \<and> key \<noteq> [] \<and>
    g_hash_table_lookup (mdata_hashes priv) cpt = None"
  then obtain cm hm where t: "cpts priv = Some cm" "mdata_hashes priv = Some hm"
    by (auto simp: tables_exist_def)
  have k: "as_component_get_id h cpt = Some key" "key \<noteq> []"
    using a by simp_all
  have n: "hm cpt = None"
    using a t by (simp add: glib_defs)
  let ?h1 = "as_component_set_data_id (add_component_bundle_policy h priv cpt) cpt
      (build (Some key) (Some (md5_hex a)))"
  let ?p1 = "priv\<lparr>cpts := Some (cm(key \<mapsto> cpt)), mdata_hashes := Some (hm(cpt \<mapsto> md5_hex a))\<rparr>"
  have add: "asc_result_add_component build h priv cpt a = (?h1, ?p1, Inr ())"
    by (simp add: add_component_stored [OF k t] n Let_def)
  have k1: "as_component_get_id ?h1 cpt = Some key"
    using k by (simp add: as_component_get_id_def as_component_set_data_id_def bundle_policy_id)
  have f1: "g_hash_table_contains (cpts ?p1) key"
    by (simp add: glib_defs)
  show "case asc_result_add_component build h priv cpt a of
         (h1, priv1, added) \<Rightarrow>
           (case asc_result_update_component_gcid build h1 priv1 cpt b of
              (h2, priv2, ok) \<Rightarrow>
                added = Inr () \<and> ok \<and>
                g_hash_table_lookup (mdata_hashes priv1) cpt = Some (md5_hex a) \<and>
                g_hash_table_lookup (mdata_hashes priv2) cpt = Some (md5_hex (md5_hex a @ b)) \<and>
                cpt_data_id (h2 cpt) = build (Some key) (Some (md5_hex (md5_hex a @ b))))"
    unfolding add prod.case update_gcid_found [OF k1 k(2) f1]
    by (simp add: glib_defs Let_def as_component_set_data_id_def)
next
  show "md5_hex (md5_hex ''a'' @ ''b'') \<noteq> md5_hex ''ab''"
    unfolding md5_hex_a md5_hex_chain_a_b md5_hex_ab by simp
qed

text \<open>
  Adding a component with an id twice, with data \<open>d1\<close> and then \<open>d2\<close>, keeps one entry for
  the id; the checksum after the second call is the digest of the checksum the first call
  left, followed by \<open>d2\<close>. When the component had no checksum before the first call, that is
  the digest of (the digest of \<open>d1\<close>, followed by \<open>d2\<close>). For \<^verbatim>\<open>"a"\<close> and \<^verbatim>\<open>"b"\<close> that is
  not the digest of \<^verbatim>\<open>"b"\<close>.
\<close>

lemma readding_chains_with_tables:
  "(tables_exist priv \<and> as_component_get_id h cpt = Some key \<and> key \<noteq> [] \<longrightarrow>
      (case asc_result_add_component build h priv cpt d1 of
         (h1, priv1, added1) \<Rightarrow>
           (case asc_result_add_component build h1 priv1 cpt d2 of
              (h2, priv2, added2) \<Rightarrow>
                added1 = Inr () \<and> asc_result_get_component priv1 key = Some cpt \<and>
                added2 = Inr () \<and> asc_result_get_component priv2 key = Some cpt \<and>
                asc_result_components_count priv2 = asc_result_components_count priv1 \<and>
                (\<exists>H. g_hash_table_lookup (mdata_hashes priv1) cpt = Some H \<and>
                     g_hash_table_lookup (mdata_hashes priv2) cpt = Some (md5_hex (H @ d2)) \<and>
                     cpt_data_id (h2 cpt) = build (Some key) (Some (md5_hex (H @ d2)))) \<and>
                (g_hash_table_lookup (mdata_hashes priv) cpt = None \<longrightarrow>
                   g_hash_table_lookup (mdata_hashes priv1) cpt = Some (md5_hex d1) \<and>
                   g_hash_table_lookup (mdata_hashes priv2) cpt
                     = Some (md5_hex (md5_hex d1 @ d2)) \<and>
                   cpt_data_id (h2 cpt) = build (Some key) (Some (md5_hex (md5_hex d1 @ d2))))))) \<and>
   md5_hex (md5_hex ''a'' @ ''b'') \<noteq> md5_hex ''b''"
proof (intro conjI impI)
  assume a: "tables_exist priv \<and> as_component_get_id h cpt = Some key \<and> key \<noteq> []"
  then obtain cm hm where t: "cpts priv = Some cm" "mdata_hashes priv = Some hm"
    by (auto simp: tables_exist_def)
  have k: "as_component_get_id h cpt = Some key" "key \<noteq> []"
    using a by simp_all
  define H where "H = (case hm cpt of None \<Rightarrow> md5_hex d1 | Some old \<Rightarrow> md5_hex (old @ d1))"
  let ?h1 = "as_component_set_data_id (add_component_bundle_policy h priv cpt) cpt
      (build (Some key) (Some H))"
  let ?p1 = "priv\<lparr>cpts := Some (cm(key \<mapsto> cpt)), mdata_hashes := Some (hm(cpt \<mapsto> H))\<rparr>"
  have add1: "asc_result_add_component build h priv cpt d1 = (?h1, ?p1, Inr ())"
    by (simp add: add_component_stored [OF k t] H_def Let_def)
  have k1: "as_component_get_id ?h1 cpt = Some key"
    using k by (simp add: as_component_get_id_def as_component_set_data_id_def bundle_policy_id)
  have t1: "cpts ?p1 = Some (cm(key \<mapsto> cpt))" "mdata_hashes ?p1 = Some (hm(cpt \<mapsto> H))"
    by simp_all
  have none: "g_hash_table_lookup (mdata_hashes priv) cpt = None \<Longrightarrow> H = md5_hex d1"
    using t by (simp add: H_def glib_defs)
  show "case asc_result_add_component build h priv cpt d1 of
         (h1, priv1, added1) \<Rightarrow>
           (case asc_result_add_component build h1 priv1 cpt d2 of
              (h2, priv2, added2) \<Rightarrow>
                added1 = Inr () \<and> asc_result_get_component priv1 key = Some cpt \<and>
                added2 = Inr () \<and> asc_result_get_component priv2 key = Some cpt \<and>
                asc_result_components_count priv2 = asc_result_components_count priv1 \<and>
                (\<exists>H. g_hash_table_lookup (mdata_hashes priv1) cpt = Some H \<and>
                     g_hash_table_lookup (mdata_hashes priv2) cpt = Some (md5_hex (H @ d2)) \<and>
                     cpt_data_id (h2 cpt) = build (Some key) (Some (md5_hex (H @ d2)))) \<and>
                (g_hash_table_lookup (mdata_hashes priv) cpt = None \<longrightarrow>
                   g_hash_table_lookup (mdata_hashes priv1) cpt = Some (md5_hex d1) \<and>
                   g_hash_table_lookup (mdata_hashes priv2) cpt
                     = Some (md5_hex (md5_hex d1 @ d2)) \<and>
                   cpt_data_id (h2 cpt) = build (Some key) (Some (md5_hex (md5_hex d1 @ d2)))))"
    unfolding add1 prod.case add_component_stored [OF k1 k(2) t1]
    using none
    by (simp add: Let_def glib_defs asc_result_get_component_def asc_result_components_count_def
        as_component_set_data_id_def)
next
  show "md5_hex (md5_hex ''a'' @ ''b'') \<noteq> md5_hex ''b''"
    unfolding md5_hex_a md5_hex_chain_a_b md5_hex_b by simp
qed

text \<open>
  \<^verbatim>\<open>asc_result_remove_component\<close> as a function of any result, with tables or without, for a
  component that has an id: it returns \<^verbatim>\<open>TRUE\<close> exactly when an entry was stored under that
  id, and then the entry is removed and the global id of the component is cleared. The
  call of \<^verbatim>\<open>g_hash_table_remove\<close> on \<^verbatim>\<open>mdata_hashes\<close> stands outside the \<^verbatim>\<open>if\<close>: where that
  table exists, the checksum of the component is removed whatever the call returns.
\<close>

lemma remove_component_with_tables:
  "as_component_get_id h cpt = Some key \<longrightarrow>
     (\<exists>h' priv' removed.
        asc_result_remove_component h priv cpt = Some (h', priv', removed) \<and>
        removed = (asc_result_get_component priv key \<noteq> None) \<and>
        h' = (if removed then as_component_set_data_id h cpt None else h) \<and>
        (removed \<longrightarrow> cpt_data_id (h' cpt) = None) \<and>
        asc_result_get_component priv' key = None \<and>
        (\<forall>k. k \<noteq> key \<longrightarrow>
           asc_result_get_component priv' k = asc_result_get_component priv k) \<and>
        (\<not> removed \<longrightarrow> cpts priv' = cpts priv) \<and>
        g_hash_table_lookup (mdata_hashes priv') cpt = None \<and>
        (\<forall>c. c \<noteq> cpt \<longrightarrow>
           g_hash_table_lookup (mdata_hashes priv') c = g_hash_table_lookup (mdata_hashes priv) c) \<and>
        hints priv' = hints priv \<and>
        bundle_kind priv' = bundle_kind priv \<and> bundle_id priv' = bundle_id priv)"
  by (cases "cpts priv"; cases "mdata_hashes priv")
     (auto simp: asc_result_remove_component_def asc_result_get_component_def glib_defs
        as_component_set_data_id_def Let_def fun_upd_idem_iff)

section \<open>The claims\<close>

text \<open>
  C1. What the code does with the bundle list. \<^verbatim>\<open>asc_result_add_component\<close> appends a bundle
  made of the kind and the id of the result exactly when the component has an id, is no
  web application, no operating system and no removal, and the kind of the result is
  \<^verbatim>\<open>AS_BUNDLE_KIND_LAST\<close>: the test is \<^verbatim>\<open>bundle_kind >= AS_BUNDLE_KIND_LAST\<close>. With flatpak, snap
  or any other kind below \<^verbatim>\<open>AS_BUNDLE_KIND_LAST\<close> the bundle list stays as it was.
\<close>

theorem bundle_attached_only_for_kind_last:
  "cpt_bundles (fst (asc_result_add_component build h priv cpt d) cpt) =
     (if \<not> as_is_empty (as_component_get_id h cpt) \<and>
         as_component_get_kind h cpt \<noteq> AS_COMPONENT_KIND_WEB_APP \<and>
         as_component_get_kind h cpt \<noteq> AS_COMPONENT_KIND_OPERATING_SYSTEM \<and>
         as_component_get_merge_kind h cpt \<noteq> AS_MERGE_KIND_REMOVE_COMPONENT \<and>
         bundle_kind priv = AS_BUNDLE_KIND_LAST
      then cpt_bundles (h cpt) @ [\<lparr>bdl_kind = AS_BUNDLE_KIND_LAST, bdl_id = bundle_id priv\<rparr>]
      else cpt_bundles (h cpt))"
  by (simp add: add_component_fields add_component_bundle_policy_def Let_def bundle_kind_last
      cpt_defs)

lemma flatpak_component_gets_no_bundle:
  "cpt_bundles (fst (asc_result_add_component build sample_heap
      (sample_result AS_BUNDLE_KIND_FLATPAK (Some ''org.foo'')) 0 ''v1'') 0) = [] \<and>
   cpt_bundles (fst (asc_result_add_component build sample_heap
      (sample_result AS_BUNDLE_KIND_LAST (Some ''org.foo'')) 0 ''v1'') 0) =
     [\<lparr>bdl_kind = AS_BUNDLE_KIND_LAST, bdl_id = Some ''org.foo''\<rparr>]"
  by (simp add: add_component_fields add_component_bundle_policy_def Let_def cpt_defs
      as_is_empty_def sample_defs)

text \<open>
  C2. What the code does on every result the program builds. \<^verbatim>\<open>asc_result_add_component\<close>
  on a component with an id, with data \<open>a\<close>, returns \<^verbatim>\<open>TRUE\<close> and stores neither the component
  nor a checksum; \<^verbatim>\<open>asc_result_update_component_gcid\<close> with data \<open>b\<close> then returns \<^verbatim>\<open>FALSE\<close>.
  After the two calls no checksum is stored for the component and its global id is the
  one it had before. The digest of (the digest of \<open>a\<close>, followed by \<open>b\<close>) is what the two
  calls leave only where the tables exist (\<open>update_gcid_chains_with_tables\<close>).
\<close>

theorem add_then_update_leaves_no_checksum:
  "reachable priv \<Longrightarrow> as_component_get_id h cpt = Some key \<Longrightarrow> key \<noteq> [] \<Longrightarrow>
   (case asc_result_add_component build h priv cpt a of
      (h1, priv1, added) \<Rightarrow>
        (case asc_result_update_component_gcid build h1 priv1 cpt b of
           (h2, priv2, ok) \<Rightarrow>
             added = Inr () \<and> \<not> ok \<and>
             asc_result_get_component priv1 key = None \<and>
             g_hash_table_lookup (mdata_hashes priv1) cpt = None \<and>
             g_hash_table_lookup (mdata_hashes priv2) cpt = None \<and>
             cpt_data_id (h2 cpt) = cpt_data_id (h cpt)))"
proof -
  assume r: "reachable priv" and k: "as_component_get_id h cpt = Some key" "key \<noteq> []"
  have n: "no_tables priv" using r by (rule reachable_no_tables)
  have e: "\<not> as_is_empty (as_component_get_id h cpt)"
    "\<not> as_is_empty (as_component_get_id (add_component_bundle_policy h priv cpt) cpt)"
    using k by (simp_all add: as_is_empty_def as_component_get_id_def bundle_policy_id)
  have d: "cpt_data_id (add_component_bundle_policy h priv cpt cpt) = cpt_data_id (h cpt)"
    by (simp add: add_component_bundle_policy_def cpt_defs Let_def)
  have c: "asc_result_get_component priv key = None"
    "g_hash_table_lookup (mdata_hashes priv) cpt = None"
    using n by (simp_all add: no_tables_def asc_result_get_component_def glib_defs)
  show ?thesis
    using e c d by (simp add: add_component_no_tables [OF n] update_gcid_no_tables [OF n])
qed

theorem add_then_update_leaves_no_checksum_witness:
  "(case asc_result_add_component sample_gcid sample_heap asc_result_new 0 ''a'' of
      (h1, priv1, added) \<Rightarrow>
        (case asc_result_update_component_gcid sample_gcid h1 priv1 0 ''b'' of
           (h2, priv2, ok) \<Rightarrow>
             added = Inr () \<and> \<not> ok \<and>
             asc_result_get_component priv1 ''org.app'' = None \<and>
             g_hash_table_lookup (mdata_hashes priv1) 0 = None \<and>
             g_hash_table_lookup (mdata_hashes priv2) 0 = None \<and>
             cpt_data_id (h2 0) = None))"
proof -
  have i0: "as_component_get_id sample_heap 0 = Some ''org.app''"
    by (simp add: as_component_get_id_def sample_defs)
  have d0: "cpt_data_id (sample_heap 0) = None"
    by (simp add: sample_defs)
  show ?thesis
    using add_then_update_leaves_no_checksum [OF reachable.new i0,
        where build = sample_gcid and a = "''a''" and b = "''b''"]
    by (simp add: d0 split_beta)
qed

text \<open>
  C3. In a result of kind package with the bundle id \<open>foo\<close>, adding a component that has an
  id and is no web application, no operating system and no removal leaves its list of
  package names equal to \<open>[foo]\<close>, whatever the list was. Adding a web application, an
  operating system or a removal changes neither its package names nor its bundles,
  whatever the kind of the result.
\<close>

theorem package_tagging_and_exemptions:
  "(\<not> as_is_empty (as_component_get_id h cpt) \<and>
    bundle_kind priv = AS_BUNDLE_KIND_PACKAGE \<and> bundle_id priv = Some foo \<and>
    as_component_get_kind h cpt \<noteq> AS_COMPONENT_KIND_WEB_APP \<and>
    as_component_get_kind h cpt \<noteq> AS_COMPONENT_KIND_OPERATING_SYSTEM \<and>
    as_component_get_merge_kind h cpt \<noteq> AS_MERGE_KIND_REMOVE_COMPONENT \<longrightarrow>
      cpt_pkgnames (fst (asc_result_add_component build h priv cpt d) cpt) = [foo]) \<and>
   (as_component_get_kind h cpt = AS_COMPONENT_KIND_WEB_APP \<or>
    as_component_get_kind h cpt = AS_COMPONENT_KIND_OPERATING_SYSTEM \<or>
    as_component_get_merge_kind h cpt = AS_MERGE_KIND_REMOVE_COMPONENT \<longrightarrow>
      cpt_pkgnames (fst (asc_result_add_component build h priv cpt d) cpt) = cpt_pkgnames (h cpt) \<and>
      cpt_bundles (fst (asc_result_add_component build h priv cpt d) cpt) = cpt_bundles (h cpt))"
  by (auto simp: add_component_fields add_component_bundle_policy_def Let_def cpt_defs)

theorem package_tagging_and_exemptions_witness:
  "cpt_pkgnames (fst (asc_result_add_component sample_gcid
      (as_component_set_pkgnames sample_heap 0 [Some ''old'', Some ''older'', None])
      (sample_result AS_BUNDLE_KIND_PACKAGE (Some ''foo'')) 0 ''v1'') 0) = [''foo''] \<and>
   cpt_pkgnames (fst (asc_result_add_component sample_gcid
      (as_component_set_pkgnames sample_heap 2 [Some ''old'', None])
      (sample_result AS_BUNDLE_KIND_PACKAGE (Some ''foo'')) 2 ''v1'') 2) = [''old''] \<and>
   cpt_bundles (fst (asc_result_add_component sample_gcid
      (as_component_set_pkgnames sample_heap 2 [Some ''old'', None])
      (sample_result AS_BUNDLE_KIND_PACKAGE (Some ''foo'')) 2 ''v1'') 2) = []"
proof -
  let ?h0 = "as_component_set_pkgnames sample_heap 0 [Some ''old'', Some ''older'', None]"
  let ?h2 = "as_component_set_pkgnames sample_heap 2 [Some ''old'', None]"
  let ?p = "sample_result AS_BUNDLE_KIND_PACKAGE (Some ''foo'')"
  have a: "\<not> as_is_empty (as_component_get_id ?h0 0)"
    "as_component_get_kind ?h0 0 = AS_COMPONENT_KIND_DESKTOP_APP"
    "as_component_get_merge_kind ?h0 0 = AS_MERGE_KIND_NONE"
    "bundle_kind ?p = AS_BUNDLE_KIND_PACKAGE" "bundle_id ?p = Some ''foo''"
    "cpt_pkgnames (?h0 0) = [''old'', ''older'']"
    by (simp_all add: as_is_empty_def cpt_defs sample_defs)
  have b: "as_component_get_kind ?h2 2 = AS_COMPONENT_KIND_WEB_APP"
    "cpt_pkgnames (?h2 2) = [''old'']" "cpt_bundles (?h2 2) = []"
    by (simp_all add: cpt_defs sample_defs)
  show ?thesis
    using a b
      package_tagging_and_exemptions [of ?h0 0 ?p "''foo''" sample_gcid "''v1''"]
      package_tagging_and_exemptions [of ?h2 2 ?p "''foo''" sample_gcid "''v1''"]
    by simp
qed

text \<open>
  C4. A result fresh from \<^verbatim>\<open>asc_result_new\<close> has no tables: the three pointers are
  \<^verbatim>\<open>NULL\<close>, because \<^verbatim>\<open>asc_result_init\<close> releases what \<^verbatim>\<open>asc_result_finalize\<close> was meant to
  release and \<^verbatim>\<open>asc_result_finalize\<close> makes the tables that \<^verbatim>\<open>asc_result_init\<close> was meant to
  make. The counts read 0, the unit reads as ignored, the kind is unknown and the bundle
  id absent; an added component is reported as added and is not stored.
\<close>

theorem asc_result_new_has_no_tables:
  "cpts asc_result_new = None \<and> mdata_hashes asc_result_new = None \<and>
   hints asc_result_new = None \<and> \<not> tables_exist asc_result_new \<and>
   tables_exist (asc_result_finalize asc_result_new) \<and>
   asc_result_components_count asc_result_new = 0 \<and>
   asc_result_hints_count asc_result_new = 0 \<and>
   asc_result_unit_ignored asc_result_new \<and>
   asc_result_get_bundle_kind asc_result_new = AS_BUNDLE_KIND_UNKNOWN \<and>
   asc_result_get_bundle_id asc_result_new = None \<and>
   asc_result_add_component build sample_heap asc_result_new 0 ''v1''
     = (sample_heap, asc_result_new, Inr ()) \<and>
   asc_result_get_component asc_result_new ''org.app'' = None"
proof -
  have new: "asc_result_new = zero_filled"
    by (simp add: asc_result_new_def asc_result_init_def zero_filled_def)
  have id0: "as_component_get_id sample_heap 0 = Some ''org.app''"
    by (simp add: as_component_get_id_def sample_defs)
  have pol: "add_component_bundle_policy sample_heap zero_filled 0 = sample_heap"
    by (simp add: add_component_bundle_policy_def zero_filled_def Let_def)
  have ins: "zero_filled\<lparr>cpts := g_hash_table_insert (cpts zero_filled) ''org.app'' 0\<rparr> = zero_filled"
    by (simp add: zero_filled_def glib_defs)
  have upd: "asc_result_update_component_gcid build sample_heap zero_filled 0 ''v1''
      = (sample_heap, zero_filled, False)"
    by (rule update_gcid_not_found [OF id0]) (simp_all add: zero_filled_def glib_defs)
  have add: "asc_result_add_component build sample_heap zero_filled 0 ''v1''
      = (sample_heap, zero_filled, Inr ())"
    by (simp add: add_component_nonempty [OF id0] pol ins upd)
  show ?thesis
    unfolding new
    by (simp add: add)
       (simp add: zero_filled_def tables_exist_def asc_result_finalize_def
          asc_result_components_count_def asc_result_hints_count_def
          asc_result_unit_ignored_def asc_result_get_bundle_kind_def
          asc_result_get_bundle_id_def asc_result_get_component_def glib_defs)
qed



text \<open>
  C6. Adding a component whose id is empty or missing fails with the error
  \<^verbatim>\<open>ASC_COMPOSE_ERROR_FAILED\<close> and its message, and leaves the heap and the result as they
  were, so the count of components too; with any other id the call returns \<^verbatim>\<open>TRUE\<close>.
\<close>

theorem add_component_empty_id_fails:
  "(as_is_empty (as_component_get_id h cpt) \<longrightarrow>
      asc_result_add_component build h priv cpt d =
        (h, priv,
         Inl (ASC_COMPOSE_ERROR_FAILED ''Can not add component with empty ID to results set.''))
      \<and> asc_result_components_count (fst (snd (asc_result_add_component build h priv cpt d)))
          = asc_result_components_count priv) \<and>
   (\<not> as_is_empty (as_component_get_id h cpt) \<longrightarrow>
      snd (snd (asc_result_add_component build h priv cpt d)) = Inr ())"
  by (auto simp: add_component_empty not_empty_id add_component_nonempty split: prod.splits)

theorem add_component_empty_id_fails_witness:
  "as_is_empty (as_component_get_id sample_heap 3) \<and>
   as_is_empty (as_component_get_id sample_heap 7) \<and>
   asc_result_add_component sample_gcid sample_heap
       (sample_result AS_BUNDLE_KIND_PACKAGE (Some ''foo'')) 3 ''v1'' =
     (sample_heap, sample_result AS_BUNDLE_KIND_PACKAGE (Some ''foo''),
      Inl (ASC_COMPOSE_ERROR_FAILED ''Can not add component with empty ID to results set.'')) \<and>
   asc_result_add_component sample_gcid sample_heap
       (sample_result AS_BUNDLE_KIND_PACKAGE (Some ''foo'')) 7 ''v1'' =
     (sample_heap, sample_result AS_BUNDLE_KIND_PACKAGE (Some ''foo''),
      Inl (ASC_COMPOSE_ERROR_FAILED ''Can not add component with empty ID to results set.'')) \<and>
   \<not> as_is_empty (as_component_get_id sample_heap 0) \<and>
   snd (snd (asc_result_add_component sample_gcid sample_heap
       (sample_result AS_BUNDLE_KIND_PACKAGE (Some ''foo'')) 0 ''v1'')) = Inr ()"
proof -
  have e3: "as_is_empty (as_component_get_id sample_heap 3)"
    by (simp add: as_is_empty_def as_component_get_id_def sample_defs)
  have e7: "as_is_empty (as_component_get_id sample_heap 7)"
    by (simp add: as_is_empty_def as_component_get_id_def sample_defs)
  have n0: "\<not> as_is_empty (as_component_get_id sample_heap 0)"
    by (simp add: as_is_empty_def as_component_get_id_def sample_defs)
  show ?thesis
    using e3 e7 n0
      add_component_empty_id_fails [of sample_heap 3 sample_gcid
        "sample_result AS_BUNDLE_KIND_PACKAGE (Some ''foo'')" "''v1''"]
      add_component_empty_id_fails [of sample_heap 7 sample_gcid
        "sample_result AS_BUNDLE_KIND_PACKAGE (Some ''foo'')" "''v1''"]
      add_component_empty_id_fails [of sample_heap 0 sample_gcid
        "sample_result AS_BUNDLE_KIND_PACKAGE (Some ''foo'')" "''v1''"]
    by simp
qed

text \<open>
  C7. \<^verbatim>\<open>asc_result_update_component_gcid\<close> on a component whose id is empty or missing
  sets the global id built from that id and no checksum, returns \<^verbatim>\<open>TRUE\<close> and leaves the
  result as it was, whether the component is stored or not. On a component whose id is
  not a key of \<^verbatim>\<open>cpts\<close> it returns \<^verbatim>\<open>FALSE\<close> and changes neither the result nor the component.
\<close>

theorem update_gcid_non_chaining_paths:
  "(as_is_empty (as_component_get_id h cpt) \<longrightarrow>
      asc_result_update_component_gcid build h priv cpt d =
        (as_component_set_data_id h cpt (build (as_component_get_id h cpt) None), priv, True)) \<and>
   (as_component_get_id h cpt = Some key \<and> key \<noteq> [] \<and>
    asc_result_get_component priv key = None \<longrightarrow>
      asc_result_update_component_gcid build h priv cpt d = (h, priv, False))"
  by (auto simp: update_gcid_empty update_gcid_not_found asc_result_get_component_def glib_defs
      split: option.splits)

theorem update_gcid_non_chaining_paths_witness:
  "as_is_empty (as_component_get_id sample_heap 3) \<and>
   asc_result_update_component_gcid sample_gcid sample_heap
       (sample_result AS_BUNDLE_KIND_PACKAGE (Some ''foo'')) 3 ''v1'' =
     (as_component_set_data_id sample_heap 3 (sample_gcid (Some []) None),
      sample_result AS_BUNDLE_KIND_PACKAGE (Some ''foo''), True) \<and>
   as_component_get_id sample_heap 0 = Some ''org.app'' \<and>
   asc_result_get_component (sample_result AS_BUNDLE_KIND_PACKAGE (Some ''foo'')) ''org.app''
     = None \<and>
   asc_result_update_component_gcid sample_gcid sample_heap
       (sample_result AS_BUNDLE_KIND_PACKAGE (Some ''foo'')) 0 ''v1'' =
     (sample_heap, sample_result AS_BUNDLE_KIND_PACKAGE (Some ''foo''), False)"
proof -
  have e3: "as_is_empty (as_component_get_id sample_heap 3)"
    and i3: "as_component_get_id sample_heap 3 = Some []"
    and i0: "as_component_get_id sample_heap 0 = Some ''org.app''"
    by (simp_all add: as_is_empty_def as_component_get_id_def sample_defs)
  have g0: "asc_result_get_component (sample_result AS_BUNDLE_KIND_PACKAGE (Some ''foo''))
      ''org.app'' = None"
    by (simp add: asc_result_get_component_def sample_result_def glib_defs)
  show ?thesis
    using e3 i3 i0 g0
      update_gcid_non_chaining_paths [of sample_heap 3 sample_gcid
        "sample_result AS_BUNDLE_KIND_PACKAGE (Some ''foo'')" "''v1''" "''org.app''"]
      update_gcid_non_chaining_paths [of sample_heap 0 sample_gcid
        "sample_result AS_BUNDLE_KIND_PACKAGE (Some ''foo'')" "''v1''" "''org.app''"]
    by simp
qed

text \<open>
  C8. What the code does on every result the program builds. \<^verbatim>\<open>asc_result_add_component\<close>
  on a component with an id returns \<^verbatim>\<open>TRUE\<close> and leaves the result as it was:
  \<^verbatim>\<open>asc_result_get_component\<close> on that id finds nothing and the count of components is 0,
  also after a caller has added a list of components. The component is found and counted
  only where the tables exist (\<open>add_component_storage_with_tables\<close>).
\<close>

theorem add_component_stores_nothing:
  "reachable priv \<Longrightarrow> as_component_get_id h cpt = Some key \<Longrightarrow> key \<noteq> [] \<Longrightarrow>
   (case asc_result_add_component build h priv cpt d of
      (h', priv', res) \<Rightarrow>
        res = Inr () \<and> priv' = priv \<and>
        asc_result_get_component priv' key = None \<and>
        asc_result_components_count priv' = 0) \<and>
   asc_result_components_count (snd (add_components build h priv xs)) = 0"
proof -
  assume r: "reachable priv" and k: "as_component_get_id h cpt = Some key" "key \<noteq> []"
  have n: "no_tables priv" using r by (rule reachable_no_tables)
  have e: "\<not> as_is_empty (as_component_get_id h cpt)"
    using k by (simp add: as_is_empty_def)
  have c: "asc_result_get_component priv key = None" "asc_result_components_count priv = 0"
    using n by (simp_all add: no_tables_def asc_result_get_component_def
        asc_result_components_count_def glib_defs)
  show ?thesis
    using c e by (simp add: add_component_no_tables [OF n] add_components_no_tables [OF n])
qed

theorem add_component_stores_nothing_witness:
  "(case asc_result_add_component sample_gcid sample_heap asc_result_new 0 ''v1'' of
      (h', priv', res) \<Rightarrow>
        res = Inr () \<and> priv' = asc_result_new \<and>
        asc_result_get_component priv' ''org.app'' = None \<and>
        asc_result_components_count priv' = 0) \<and>
   asc_result_components_count
     (snd (add_components sample_gcid sample_heap asc_result_new
        [(0, ''v1''), (1, ''v2''), (2, ''v3'')])) = 0"
proof -
  have i0: "as_component_get_id sample_heap 0 = Some ''org.app''"
    by (simp add: as_component_get_id_def sample_defs)
  show ?thesis
    by (rule add_component_stores_nothing [OF reachable.new i0]) simp
qed

text \<open>
  C9. What the code does on every result the program builds. When
  \<^verbatim>\<open>asc_result_add_component\<close> has passed the test of the id, the call of
  \<^verbatim>\<open>asc_result_update_component_gcid\<close> it makes after the insert returns \<^verbatim>\<open>FALSE\<close>: the insert
  has put nothing into the table that is not there, the id is not found, and
  \<^verbatim>\<open>asc_result_add_component\<close> returns \<^verbatim>\<open>TRUE\<close> all the same. The statement is about that very
  call, on the heap the bundle policy left and the result after the insert.
\<close>

theorem gcid_update_inside_add_fails:
  "reachable priv \<Longrightarrow> as_component_get_id h cpt = Some key \<Longrightarrow> key \<noteq> [] \<Longrightarrow>
   (case asc_result_update_component_gcid build (add_component_bundle_policy h priv cpt)
           (priv\<lparr>cpts := g_hash_table_insert (cpts priv) key cpt\<rparr>) cpt d of
      (h2, priv2, updated) \<Rightarrow>
        \<not> updated \<and> asc_result_add_component build h priv cpt d = (h2, priv2, Inr ()))"
proof -
  assume r: "reachable priv" and k: "as_component_get_id h cpt = Some key" "key \<noteq> []"
  have n: "no_tables priv" using r by (rule reachable_no_tables)
  have p: "priv\<lparr>cpts := g_hash_table_insert (cpts priv) key cpt\<rparr> = priv"
    using n by (simp add: no_tables_def glib_defs)
  have e: "\<not> as_is_empty (as_component_get_id h cpt)"
    "\<not> as_is_empty (as_component_get_id (add_component_bundle_policy h priv cpt) cpt)"
    using k by (simp_all add: as_is_empty_def as_component_get_id_def bundle_policy_id)
  show ?thesis
    using e by (simp add: p update_gcid_no_tables [OF n] add_component_no_tables [OF n])
qed

theorem gcid_update_inside_add_fails_witness:
  "(case asc_result_update_component_gcid sample_gcid
           (add_component_bundle_policy sample_heap asc_result_new 0)
           (asc_result_new\<lparr>cpts := g_hash_table_insert (cpts asc_result_new) ''org.app'' 0\<rparr>)
           0 ''v1'' of
      (h2, priv2, updated) \<Rightarrow>
        \<not> updated \<and>
        asc_result_add_component sample_gcid sample_heap asc_result_new 0 ''v1''
          = (h2, priv2, Inr ()))"
proof -
  have i0: "as_component_get_id sample_heap 0 = Some ''org.app''"
    by (simp add: as_component_get_id_def sample_defs)
  show ?thesis
    by (rule gcid_update_inside_add_fails [OF reachable.new i0]) simp
qed

text \<open>
  C10. What the code does on every result the program builds. Adding a component with
  an id twice, with data \<open>d1\<close> and then \<open>d2\<close>, returns \<^verbatim>\<open>TRUE\<close> both times; after the second
  call the component is not stored, no checksum is stored for it and its global id is the
  one it had before the first call. The chained digest is what the two calls leave only
  where the tables exist (\<open>readding_chains_with_tables\<close>).
\<close>

theorem readding_leaves_no_checksum:
  "reachable priv \<Longrightarrow> as_component_get_id h cpt = Some key \<Longrightarrow> key \<noteq> [] \<Longrightarrow>
   (case asc_result_add_component build h priv cpt d1 of
      (h1, priv1, added1) \<Rightarrow>
        (case asc_result_add_component build h1 priv1 cpt d2 of
           (h2, priv2, added2) \<Rightarrow>
             added1 = Inr () \<and> asc_result_get_component priv1 key = None \<and>
             added2 = Inr () \<and> asc_result_get_component priv2 key = None \<and>
             g_hash_table_lookup (mdata_hashes priv1) cpt = None \<and>
             g_hash_table_lookup (mdata_hashes priv2) cpt = None \<and>
             cpt_data_id (h2 cpt) = cpt_data_id (h cpt)))"
proof -
  assume r: "reachable priv" and k: "as_component_get_id h cpt = Some key" "key \<noteq> []"
  have n: "no_tables priv" using r by (rule reachable_no_tables)
  have e: "\<not> as_is_empty (as_component_get_id h cpt)"
    "\<not> as_is_empty (as_component_get_id (add_component_bundle_policy h priv cpt) cpt)"
    using k by (simp_all add: as_is_empty_def as_component_get_id_def bundle_policy_id)
  have d: "cpt_data_id (add_component_bundle_policy
      (add_component_bundle_policy h priv cpt) priv cpt cpt) = cpt_data_id (h cpt)"
    by (simp add: add_component_bundle_policy_def cpt_defs Let_def)
  have c: "asc_result_get_component priv key = None"
    "g_hash_table_lookup (mdata_hashes priv) cpt = None"
    using n by (simp_all add: no_tables_def asc_result_get_component_def glib_defs)
  show ?thesis
    using e c d by (simp add: add_component_no_tables [OF n])
qed

theorem readding_leaves_no_checksum_witness:
  "(case asc_result_add_component sample_gcid sample_heap asc_result_new 0 ''a'' of
      (h1, priv1, added1) \<Rightarrow>
        (case asc_result_add_component sample_gcid h1 priv1 0 ''b'' of
           (h2, priv2, added2) \<Rightarrow>
             added1 = Inr () \<and> added2 = Inr () \<and>
             asc_result_get_component priv2 ''org.app'' = None \<and>
             g_hash_table_lookup (mdata_hashes priv2) 0 = None \<and>
             cpt_data_id (h2 0) = None))"
proof -
  have i0: "as_component_get_id sample_heap 0 = Some ''org.app''"
    by (simp add: as_component_get_id_def sample_defs)
  have d0: "cpt_data_id (sample_heap 0) = None"
    by (simp add: sample_defs)
  show ?thesis
    using readding_leaves_no_checksum [OF reachable.new i0,
        where build = sample_gcid and ?d1.0 = "''a''" and ?d2.0 = "''b''"]
    by (simp add: d0 split_beta)
qed

end
